theory Spec2Isabelle
  imports Complex_Main "HOL-Library.AList" "HOL-Library.Monad_Syntax" "HOL-Library.Multiset"
begin

section \<open>Python values and library functions\<close>

text \<open>
  The values the cache stores and the attribute map carries are Python objects
  (\<^verbatim>\<open>Any\<close>). The model keeps the JSON scalars (\<open>PNone\<close> is Python's \<^verbatim>\<open>None\<close>) and,
  as a value that \<^verbatim>\<open>json.dumps\<close> rejects, the dictionary \<^verbatim>\<open>{t: n}\<close> whose only key is a
  tuple \<open>t\<close> of integers.
\<close>

datatype pyval = PNone | PBool bool | PInt int | PStr string | PTupleKeyDict "int list" int

type_synonym bytes = string

text \<open>
  \<^verbatim>\<open>json\<close>, \<^verbatim>\<open>pickle\<close>, \<^verbatim>\<open>gzip\<close> and the glob matcher of the Redis server are
  libraries outside the repository. The services take them as a record of functions;
  an encoder or a decoder that raises returns \<open>None\<close>.
\<close>

record externals =
  json_dumps :: "pyval \<Rightarrow> bytes option"
  json_loads :: "bytes \<Rightarrow> pyval option"
  pickle_dumps :: "pyval \<Rightarrow> bytes option"
  pickle_loads :: "bytes \<Rightarrow> pyval option"
  gzip_compress :: "bytes \<Rightarrow> bytes"
  gzip_decompress :: "bytes \<Rightarrow> bytes option"
  glob_matches :: "string \<Rightarrow> string \<Rightarrow> bool"

section \<open>core/config.py\<close>

definition CACHE_DEFAULT_TTL :: int where "CACHE_DEFAULT_TTL = 3600"
definition CACHE_SHORT_TTL :: int where "CACHE_SHORT_TTL = 300"
definition CACHE_PREFIX :: string where "CACHE_PREFIX = ''perf_demo''"
definition CACHE_COMPRESSION :: bool where "CACHE_COMPRESSION = True"
definition CACHE_SERIALIZER :: string where "CACHE_SERIALIZER = ''json''"

section \<open>The shared tier (Redis)\<close>

text \<open>
  The Redis server is an external collaborator. Its store maps a key to a payload and the
  time at which the key expires; a key whose expiry time has been reached is gone.
  \<^verbatim>\<open>SETEX\<close> rejects a time-to-live that is not positive, \<^verbatim>\<open>DEL\<close> returns the number
  of keys it removed, \<^verbatim>\<open>KEYS\<close> lists the live keys that match a glob pattern.
\<close>

type_synonym redis_store = "(string \<times> (bytes \<times> int)) list"

definition redis_get :: "redis_store \<Rightarrow> int \<Rightarrow> string \<Rightarrow> bytes option" where
  "redis_get st t k =
     (case map_of st k of
        None \<Rightarrow> None
      | Some (b, e) \<Rightarrow> if e > t then Some b else None)"

definition redis_setex :: "redis_store \<Rightarrow> int \<Rightarrow> string \<Rightarrow> int \<Rightarrow> bytes \<Rightarrow> redis_store option" where
  "redis_setex st t k ttl b =
     (if ttl \<le> 0 then None else Some (AList.update k (b, t + ttl) st))"

fun redis_delete :: "redis_store \<Rightarrow> int \<Rightarrow> string list \<Rightarrow> nat \<times> redis_store" where
  "redis_delete st t [] = (0, st)"
| "redis_delete st t (k # ks) =
     (let removed = (if redis_get st t k = None then 0 else 1);
          (n, st') = redis_delete (AList.delete k st) t ks
      in (removed + n, st'))"

definition redis_keys :: "(string \<Rightarrow> string \<Rightarrow> bool) \<Rightarrow> redis_store \<Rightarrow> int \<Rightarrow> string \<Rightarrow> string list" where
  "redis_keys matches st t pat =
     map fst (filter (\<lambda>(k, (b, e)). e > t \<and> matches pat k) st)"

section \<open>services/cache\_service.py\<close>

record local_entry =
  data :: pyval
  expires_at :: int

record stats =
  hits :: nat
  misses :: nat
  sets :: nat
  deletes :: nat
  errors :: nat

text \<open>
  \<open>redis_client\<close> is \<open>None\<close> when the connection could not be set up
  (\<^verbatim>\<open>initialize\<close> caught the failure); the dictionaries are association lists in
  insertion order.
\<close>

record CacheService =
  redis_client :: "redis_store option"
  local_cache :: "(string \<times> local_entry) list"
  cache_stats :: stats
  compression_enabled :: bool
  serializer :: string

text \<open>
  What a call reads from outside the process: the clock (\<^verbatim>\<open>time.time()\<close>, in seconds)
  and whether the Redis commands of this call raise (connection lost, timeout).
\<close>

record env =
  now :: int
  redis_down :: bool

definition CacheService_init :: CacheService where
  "CacheService_init =
     \<lparr>redis_client = None, local_cache = [],
      cache_stats = \<lparr>hits = 0, misses = 0, sets = 0, deletes = 0, errors = 0\<rparr>,
      compression_enabled = CACHE_COMPRESSION, serializer = CACHE_SERIALIZER\<rparr>"

text \<open>\<^verbatim>\<open>initialize\<close>: the client is kept when the ping succeeds, dropped otherwise.\<close>

definition initialize :: "redis_store option \<Rightarrow> CacheService \<Rightarrow> CacheService" where
  "initialize connection s = s\<lparr>redis_client := connection\<rparr>"

definition startswith :: "bytes \<Rightarrow> bytes \<Rightarrow> bool" where
  "startswith d p = (take (length p) d = p)"

text \<open>\<^verbatim>\<open>_serialize\<close> raises when the encoder does (\<open>None\<close>).\<close>

definition serialize :: "externals \<Rightarrow> CacheService \<Rightarrow> pyval \<Rightarrow> bytes option" where
  "serialize L s d =
     (case (if serializer s = ''json'' then json_dumps L d
            else if serializer s = ''pickle'' then pickle_dumps L d
            else json_dumps L d) of
        None \<Rightarrow> None
      | Some serialized \<Rightarrow>
          if compression_enabled s \<and> length serialized > 1024
          then Some (''gzip:'' @ gzip_compress L serialized)
          else Some serialized)"

definition deserialize :: "externals \<Rightarrow> CacheService \<Rightarrow> bytes \<Rightarrow> pyval option" where
  "deserialize L s d =
     (case (if startswith d ''gzip:'' then gzip_decompress L (drop 5 d) else Some d) of
        None \<Rightarrow> None
      | Some d' \<Rightarrow>
          if serializer s = ''json'' then json_loads L d'
          else if serializer s = ''pickle'' then pickle_loads L d'
          else json_loads L d')"

definition get_cache_key :: "string \<Rightarrow> string" where
  "get_cache_key key = CACHE_PREFIX @ '':'' @ key"

definition inc_hits :: "CacheService \<Rightarrow> CacheService" where
  "inc_hits s = s\<lparr>cache_stats := (cache_stats s)\<lparr>hits := hits (cache_stats s) + 1\<rparr>\<rparr>"

definition inc_misses :: "CacheService \<Rightarrow> CacheService" where
  "inc_misses s = s\<lparr>cache_stats := (cache_stats s)\<lparr>misses := misses (cache_stats s) + 1\<rparr>\<rparr>"

definition inc_sets :: "CacheService \<Rightarrow> CacheService" where
  "inc_sets s = s\<lparr>cache_stats := (cache_stats s)\<lparr>sets := sets (cache_stats s) + 1\<rparr>\<rparr>"

definition add_deletes :: "nat \<Rightarrow> CacheService \<Rightarrow> CacheService" where
  "add_deletes n s = s\<lparr>cache_stats := (cache_stats s)\<lparr>deletes := deletes (cache_stats s) + n\<rparr>\<rparr>"

definition inc_errors :: "CacheService \<Rightarrow> CacheService" where
  "inc_errors s = s\<lparr>cache_stats := (cache_stats s)\<lparr>errors := errors (cache_stats s) + 1\<rparr>\<rparr>"

text \<open>
  \<^verbatim>\<open>get\<close> has three ways out: one of the two \<^verbatim>\<open>return\<close>s of a value that was found,
  the \<^verbatim>\<open>return None\<close> after the miss counter, and the \<^verbatim>\<open>return None\<close> of the
  exception handler. The caller sees \<open>returned\<close>.
\<close>

datatype outcome = Found pyval | Absent | Failed

fun returned :: "outcome \<Rightarrow> pyval" where
  "returned (Found v) = v"
| "returned Absent = PNone"
| "returned Failed = PNone"

text \<open>The second half of \<^verbatim>\<open>get\<close>, from the comment "Try Redis cache" on.\<close>

definition get_redis :: "externals \<Rightarrow> env \<Rightarrow> string \<Rightarrow> CacheService \<Rightarrow> outcome \<times> CacheService" where
  "get_redis L e key s =
     (case redis_client s of
        None \<Rightarrow> (Absent, inc_misses s)
      | Some st \<Rightarrow>
          if redis_down e then (Failed, inc_errors s)
          else (case redis_get st (now e) (get_cache_key key) of
                  None \<Rightarrow> (Absent, inc_misses s)
                | Some cached_data \<Rightarrow>
                    if cached_data = [] then (Absent, inc_misses s)
                    else (case deserialize L s cached_data of
                            None \<Rightarrow> (Failed, inc_errors s)
                          | Some d \<Rightarrow>
                              (Found d,
                               inc_hits (s\<lparr>local_cache :=
                                  AList.update key
                                    \<lparr>data = d, expires_at = now e + CACHE_SHORT_TTL\<rparr>
                                    (local_cache s)\<rparr>)))))"

definition get :: "externals \<Rightarrow> env \<Rightarrow> string \<Rightarrow> CacheService \<Rightarrow> outcome \<times> CacheService" where
  "get L e key s =
     (case map_of (local_cache s) key of
        Some cache_entry \<Rightarrow>
          if expires_at cache_entry > now e
          then (Found (data cache_entry), inc_hits s)
          else get_redis L e key (s\<lparr>local_cache := AList.delete key (local_cache s)\<rparr>)
      | None \<Rightarrow> get_redis L e key s)"

text \<open>\<^verbatim>\<open>ttl or settings.CACHE_DEFAULT_TTL\<close>: \<^verbatim>\<open>None\<close> and \<open>0\<close> are falsy.\<close>

definition ttl_or_default :: "int option \<Rightarrow> int" where
  "ttl_or_default ttl =
     (case ttl of None \<Rightarrow> CACHE_DEFAULT_TTL
      | Some t \<Rightarrow> if t = 0 then CACHE_DEFAULT_TTL else t)"

text \<open>
  \<^verbatim>\<open>set\<close> serializes the value first: when that raises, the handler counts an error and
  returns \<^verbatim>\<open>False\<close> before anything is stored, in either tier.
\<close>

definition set' :: "externals \<Rightarrow> env \<Rightarrow> string \<Rightarrow> pyval \<Rightarrow> int option \<Rightarrow> CacheService \<Rightarrow> bool \<times> CacheService" where
  "set' L e key val ttl0 s =
     (let ttl = ttl_or_default ttl0
      in case serialize L s val of
           None \<Rightarrow> (False, inc_errors s)
         | Some serialized_data \<Rightarrow>
             (let s1 = s\<lparr>local_cache :=
                         AList.update key
                           \<lparr>data = val, expires_at = now e + min ttl CACHE_SHORT_TTL\<rparr>
                           (local_cache s)\<rparr>
              in case redis_client s1 of
                   None \<Rightarrow> (True, inc_sets s1)
                 | Some st \<Rightarrow>
                     if redis_down e then (False, inc_errors s1)
                     else (case redis_setex st (now e) (get_cache_key key) ttl serialized_data of
                             None \<Rightarrow> (False, inc_errors s1)
                           | Some st' \<Rightarrow> (True, inc_sets (s1\<lparr>redis_client := Some st'\<rparr>)))))"

definition delete :: "env \<Rightarrow> string \<Rightarrow> CacheService \<Rightarrow> bool \<times> CacheService" where
  "delete e key s =
     (let s1 = (if map_of (local_cache s) key \<noteq> None
                then s\<lparr>local_cache := AList.delete key (local_cache s)\<rparr>
                else s)
      in case redis_client s1 of
           None \<Rightarrow> (True, add_deletes 1 s1)
         | Some st \<Rightarrow>
             if redis_down e then (False, inc_errors s1)
             else (True,
                   add_deletes 1
                     (s1\<lparr>redis_client :=
                          Some (snd (redis_delete st (now e) [get_cache_key key]))\<rparr>)))"

definition delete_pattern :: "externals \<Rightarrow> env \<Rightarrow> string \<Rightarrow> CacheService \<Rightarrow> nat \<times> CacheService" where
  "delete_pattern L e pattern s =
     (case redis_client s of
        None \<Rightarrow> (0, s)
      | Some st \<Rightarrow>
          if redis_down e then (0, inc_errors s)
          else (let full_pattern = get_cache_key pattern;
                    keys = redis_keys (glob_matches L) st (now e) full_pattern
                in if keys \<noteq> []
                   then (let (deleted_count, st') = redis_delete st (now e) keys
                         in (deleted_count,
                             add_deletes deleted_count (s\<lparr>redis_client := Some st'\<rparr>)))
                   else (0, s)))"

text \<open>
  \<^verbatim>\<open>get_or_set\<close>. The factory is a callable with effects of its own: it runs on a
  world \<open>'w\<close> and returns its value and the new world, so that a call of the factory is
  visible in the result. The clock is read once by \<^verbatim>\<open>get\<close> and once by \<^verbatim>\<open>set\<close>.
\<close>

definition get_or_set ::
  "externals \<Rightarrow> env \<Rightarrow> env \<Rightarrow> string \<Rightarrow> ('w \<Rightarrow> pyval \<times> 'w) \<Rightarrow> 'w \<Rightarrow> int option \<Rightarrow> CacheService
     \<Rightarrow> pyval \<times> 'w \<times> CacheService" where
  "get_or_set L e1 e2 key factory_func w ttl s =
     (let (r, s1) = get L e1 key s;
          cached_value = returned r
      in if cached_value \<noteq> PNone then (cached_value, w, s1)
         else (let (v, w') = factory_func w;
                   (ok, s2) = set' L e2 key v ttl s1
               in (v, w', s2)))"

text \<open>
  \<^verbatim>\<open>get_stats\<close>: the counters, the size of the local tier and whether a client exists
  (the rounded \<^verbatim>\<open>hit_rate\<close> is a float and is left out).
\<close>

record stats_snapshot =
  s_hits :: nat
  s_misses :: nat
  s_sets :: nat
  s_deletes :: nat
  s_errors :: nat
  local_cache_size :: nat
  redis_connected :: bool

definition get_stats :: "CacheService \<Rightarrow> stats_snapshot" where
  "get_stats s =
     \<lparr>s_hits = hits (cache_stats s), s_misses = misses (cache_stats s),
      s_sets = sets (cache_stats s), s_deletes = deletes (cache_stats s),
      s_errors = errors (cache_stats s),
      local_cache_size = length (local_cache s),
      redis_connected = (redis_client s \<noteq> None)\<rparr>"

text \<open>
  The expiry times of the two tiers for one key, and the relation between them that the
  cap \<^verbatim>\<open>min(ttl, settings.CACHE_SHORT_TTL)\<close> of \<^verbatim>\<open>set\<close> is there for.
\<close>

definition local_expiry :: "CacheService \<Rightarrow> string \<Rightarrow> int option" where
  "local_expiry s key = map_option expires_at (map_of (local_cache s) key)"

definition shared_expiry :: "CacheService \<Rightarrow> string \<Rightarrow> int option" where
  "shared_expiry s key =
     (case redis_client s of
        None \<Rightarrow> None
      | Some st \<Rightarrow> map_option snd (map_of st (get_cache_key key)))"

definition local_within_shared :: "CacheService \<Rightarrow> string \<Rightarrow> bool" where
  "local_within_shared s key =
     (case (local_expiry s key, shared_expiry s key) of
        (Some l, Some g) \<Rightarrow> l \<le> g
      | _ \<Rightarrow> True)"

subsection \<open>Sequences of calls\<close>









section \<open>Stand-ins for the libraries, for evaluation\<close>

text \<open>\<^verbatim>\<open>str\<close> of a Python integer.\<close>

fun str_nat :: "nat \<Rightarrow> string" where
  "str_nat n =
     (if n < 10 then [''0123456789'' ! n]
      else str_nat (n div 10) @ [''0123456789'' ! (n mod 10)])"

declare str_nat.simps [simp del]

definition str_int :: "int \<Rightarrow> string" where
  "str_int i = (if i < 0 then CHR ''-'' # str_nat (nat (- i)) else str_nat (nat i))"

text \<open>
  A small JSON codec for the scalars (strings without escapes), which rejects the
  dictionary with a tuple key as \<^verbatim>\<open>json.dumps\<close> does (\<^verbatim>\<open>TypeError\<close>: keys must be str,
  int, float, bool or None), a marker in place of gzip, and glob matching with \<^verbatim>\<open>*\<close> and
  \<^verbatim>\<open>?\<close>. The general theorems hold for every \<open>externals\<close>; these are used where a call
  is evaluated on concrete data.
\<close>

definition sample_json_dumps :: "pyval \<Rightarrow> bytes option" where
  "sample_json_dumps v =
     (case v of
        PNone \<Rightarrow> Some ''null''
      | PBool b \<Rightarrow> Some (if b then ''true'' else ''false'')
      | PInt i \<Rightarrow> Some (str_int i)
      | PStr s \<Rightarrow> Some (CHR 0x22 # s @ [CHR 0x22])
      | PTupleKeyDict t n \<Rightarrow> None)"

definition parse_nat :: "string \<Rightarrow> nat option" where
  "parse_nat s =
     (if s \<noteq> [] \<and> list_all (\<lambda>c. c \<in> set ''0123456789'') s
      then Some (foldl (\<lambda>a c. 10 * a + (of_char c - 48)) 0 s)
      else None)"

definition sample_json_loads :: "bytes \<Rightarrow> pyval option" where
  "sample_json_loads b =
     (if b = ''null'' then Some PNone
      else if b = ''true'' then Some (PBool True)
      else if b = ''false'' then Some (PBool False)
      else if 2 \<le> length b \<and> hd b = CHR 0x22 \<and> last b = CHR 0x22
           then Some (PStr (butlast (tl b)))
      else if b \<noteq> [] \<and> hd b = CHR ''-''
           then map_option (\<lambda>n. PInt (- int n)) (parse_nat (tl b))
      else map_option (\<lambda>n. PInt (int n)) (parse_nat b))"

fun glob_match :: "string \<Rightarrow> string \<Rightarrow> bool" where
  "glob_match [] [] = True"
| "glob_match [] (c # cs) = False"
| "glob_match (p # ps) [] = (p = CHR ''*'' \<and> glob_match ps [])"
| "glob_match (p # ps) (c # cs) =
     (if p = CHR ''*'' then glob_match ps (c # cs) \<or> glob_match (p # ps) cs
      else (p = CHR ''?'' \<or> p = c) \<and> glob_match ps cs)"

definition sample_externals :: externals where
  "sample_externals =
     \<lparr>json_dumps = sample_json_dumps, json_loads = sample_json_loads,
      pickle_dumps = sample_json_dumps, pickle_loads = sample_json_loads,
      gzip_compress = (\<lambda>b. CHR ''Z'' # b),
      gzip_decompress = (\<lambda>b. if b \<noteq> [] \<and> hd b = CHR ''Z'' then Some (tl b) else None),
      glob_matches = glob_match\<rparr>"

definition at_time :: "int \<Rightarrow> bool \<Rightarrow> env" where
  "at_time t down = \<lparr>now = t, redis_down = down\<rparr>"

text \<open>A service whose connection to an empty Redis was set up.\<close>

definition connected_service :: CacheService where
  "connected_service = initialize (Some []) CacheService_init"

section \<open>Partial operations of Python\<close>

text \<open>
  Operations that raise are options (\<open>None\<close>: the exception). Floats are modelled as
  exact rationals; \<^verbatim>\<open>float('inf')\<close> is a value of its own.
\<close>

definition py_truediv :: "rat \<Rightarrow> rat \<Rightarrow> rat option" where
  "py_truediv a b = (if b = 0 then None else Some (a / b))"

definition py_int :: "rat \<Rightarrow> int" where
  "py_int x = (if x < 0 then \<lceil>x\<rceil> else \<lfloor>x\<rfloor>)"

definition py_getitem :: "'a list \<Rightarrow> int \<Rightarrow> 'a option" where
  "py_getitem xs i =
     (if 0 \<le> i \<and> i < int (length xs) then Some (xs ! nat i)
      else if i < 0 \<and> - int (length xs) \<le> i then Some (xs ! nat (int (length xs) + i))
      else None)"

fun py_min :: "rat list \<Rightarrow> rat option" where
  "py_min [] = None"
| "py_min (x # xs) = Some (fold min xs x)"

fun py_max :: "rat list \<Rightarrow> rat option" where
  "py_max [] = None"
| "py_max (x # xs) = Some (fold max xs x)"

datatype pyfloat = Finite rat | Infinity

fun float_min :: "pyfloat \<Rightarrow> rat \<Rightarrow> pyfloat" where
  "float_min Infinity x = Finite x"
| "float_min (Finite m) x = Finite (min m x)"

text \<open>\<^verbatim>\<open>deque(maxlen=n).append(x)\<close>: append, then drop the oldest entry if the deque has grown past its bound.\<close>

definition deque_append :: "nat \<Rightarrow> 'a list \<Rightarrow> 'a \<Rightarrow> 'a list" where
  "deque_append maxlen d x =
     (let d' = d @ [x] in if length d' > maxlen then tl d' else d')"

section \<open>core/monitoring.py\<close>

definition ENABLE_METRICS :: bool where "ENABLE_METRICS = True"
definition SLOW_QUERY_THRESHOLD :: rat where "SLOW_QUERY_THRESHOLD = 1"
definition metrics_maxlen :: nat where "metrics_maxlen = 10000"

text \<open>The dataclass of one observation; its field \<^verbatim>\<open>method\<close> is \<open>http_method\<close> here.\<close>

record PerformanceMetric =
  endpoint :: string
  http_method :: string
  response_time :: rat
  status_code :: int
  timestamp :: int
  user_id :: "int option"
  ip_address :: "string option"
  cache_hit :: bool
  database_queries :: int
  database_time :: rat
  memory_usage :: "rat option"
  cpu_usage :: "rat option"

text \<open>
  The per-endpoint dictionary of \<^verbatim>\<open>endpoint_stats\<close>; the keys \<^verbatim>\<open>database_queries\<close>,
  \<^verbatim>\<open>database_time\<close> and \<^verbatim>\<open>errors\<close> carry a prime, the names being taken.
\<close>

record EndpointStats =
  total_requests :: nat
  total_response_time :: rat
  min_response_time :: pyfloat
  max_response_time :: rat
  status_codes :: "(int \<times> nat) list"
  cache_hits :: nat
  database_queries' :: int
  database_time' :: rat
  errors' :: nat

definition default_endpoint_stats :: EndpointStats where
  "default_endpoint_stats =
     \<lparr>total_requests = 0, total_response_time = 0, min_response_time = Infinity,
      max_response_time = 0, status_codes = [], cache_hits = 0,
      database_queries' = 0, database_time' = 0, errors' = 0\<rparr>"

record DatabasePerformance =
  total_queries :: int
  total_time :: rat
  average_time :: rat
  slow_queries :: nat

text \<open>
  The monitor. \<open>metrics\<close> is the deque of the last 10000 observations, oldest first.
  The dictionary \<^verbatim>\<open>cache_stats\<close> of hit counters per cache type carries a prime. The
  lists of memory and CPU samples, filled by the background sampler, are not part of the
  model.
\<close>

record PerformanceMonitor =
  metrics :: "PerformanceMetric list"
  endpoint_stats :: "(string \<times> EndpointStats) list"
  cache_stats' :: "(string \<times> nat) list"
  error_rates :: "(string \<times> rat) list"
  throughput :: "(string \<times> rat) list"
  database_performance :: DatabasePerformance

definition PerformanceMonitor_init :: PerformanceMonitor where
  "PerformanceMonitor_init =
     \<lparr>metrics = [], endpoint_stats = [], cache_stats' = [], error_rates = [],
      throughput = [],
      database_performance =
        \<lparr>total_queries = 0, total_time = 0, average_time = 0, slow_queries = 0\<rparr>\<rparr>"

text \<open>
  One call of \<^verbatim>\<open>record_request\<close>: its arguments, and what it reads from outside
  (\<^verbatim>\<open>datetime.utcnow()\<close> as the seconds its \<^verbatim>\<open>timestamp()\<close> gives, \<^verbatim>\<open>time.time()\<close>,
  and the two \<^verbatim>\<open>psutil\<close> readings).
\<close>

record request =
  arg_endpoint :: string
  arg_response_time :: rat
  arg_status_code :: int
  arg_method :: string
  arg_user_id :: "int option"
  arg_ip_address :: "string option"
  arg_cache_hit :: bool
  arg_database_queries :: int
  arg_database_time :: rat
  utcnow :: int
  current_time :: int
  memory_percent :: rat
  cpu_percent :: rat

definition metric_of :: "request \<Rightarrow> PerformanceMetric" where
  "metric_of rq =
     \<lparr>endpoint = arg_endpoint rq, http_method = arg_method rq,
      response_time = arg_response_time rq, status_code = arg_status_code rq,
      timestamp = utcnow rq, user_id = arg_user_id rq, ip_address = arg_ip_address rq,
      cache_hit = arg_cache_hit rq, database_queries = arg_database_queries rq,
      database_time = arg_database_time rq,
      memory_usage = (if ENABLE_METRICS then Some (memory_percent rq) else None),
      cpu_usage = (if ENABLE_METRICS then Some (cpu_percent rq) else None)\<rparr>"

definition defaultdict_get :: "'v \<Rightarrow> ('k \<times> 'v) list \<Rightarrow> 'k \<Rightarrow> 'v" where
  "defaultdict_get dflt d k = (case map_of d k of None \<Rightarrow> dflt | Some v \<Rightarrow> v)"

definition update_endpoint_stats :: "request \<Rightarrow> EndpointStats \<Rightarrow> EndpointStats" where
  "update_endpoint_stats rq stats =
     stats\<lparr>total_requests := total_requests stats + 1,
           total_response_time := total_response_time stats + arg_response_time rq,
           min_response_time := float_min (min_response_time stats) (arg_response_time rq),
           max_response_time := max (max_response_time stats) (arg_response_time rq),
           status_codes :=
             AList.update (arg_status_code rq)
               (defaultdict_get 0 (status_codes stats) (arg_status_code rq) + 1)
               (status_codes stats),
           cache_hits := cache_hits stats + (if arg_cache_hit rq then 1 else 0),
           database_queries' := database_queries' stats + arg_database_queries rq,
           database_time' := database_time' stats + arg_database_time rq,
           errors' := errors' stats + (if arg_status_code rq \<ge> 400 then 1 else 0)\<rparr>"

definition update_database_performance :: "request \<Rightarrow> DatabasePerformance \<Rightarrow> DatabasePerformance" where
  "update_database_performance rq dbp =
     dbp\<lparr>total_queries := total_queries dbp + arg_database_queries rq,
         total_time := total_time dbp + arg_database_time rq,
         slow_queries :=
           (if arg_database_time rq > SLOW_QUERY_THRESHOLD
            then slow_queries dbp + 1 else slow_queries dbp)\<rparr>"

text \<open>
  \<^verbatim>\<open>record_request\<close>. The division of the error rate is by a count that was just
  incremented, so nothing in the body raises.
\<close>

definition record_request :: "request \<Rightarrow> PerformanceMonitor \<Rightarrow> PerformanceMonitor" where
  "record_request rq mon =
     (let metrics1 = deque_append metrics_maxlen (metrics mon) (metric_of rq);
          stats = update_endpoint_stats rq
                    (defaultdict_get default_endpoint_stats (endpoint_stats mon) (arg_endpoint rq));
          error_rates1 =
            (if arg_status_code rq \<ge> 400
             then AList.update (arg_endpoint rq)
                    (of_nat (errors' stats) / of_nat (total_requests stats)) (error_rates mon)
             else error_rates mon);
          time_window = 60;
          recent_requests = filter (\<lambda>m. current_time rq - timestamp m \<le> time_window) metrics1
      in mon\<lparr>metrics := metrics1,
             endpoint_stats := AList.update (arg_endpoint rq) stats (endpoint_stats mon),
             database_performance := update_database_performance rq (database_performance mon),
             error_rates := error_rates1,
             throughput :=
               AList.update (arg_endpoint rq)
                 (of_nat (length recent_requests) / of_int time_window) (throughput mon)\<rparr>)"

definition record_cache_hit :: "string \<Rightarrow> PerformanceMonitor \<Rightarrow> PerformanceMonitor" where
  "record_cache_hit cache_type mon =
     mon\<lparr>cache_stats' :=
           AList.update cache_type (defaultdict_get 0 (cache_stats' mon) cache_type + 1)
             (cache_stats' mon)\<rparr>"

definition record_database_query :: "rat \<Rightarrow> PerformanceMonitor \<Rightarrow> PerformanceMonitor" where
  "record_database_query query_time mon =
     mon\<lparr>database_performance :=
           (database_performance mon)
             \<lparr>total_queries := total_queries (database_performance mon) + 1,
              total_time := total_time (database_performance mon) + query_time,
              slow_queries :=
                (if query_time > SLOW_QUERY_THRESHOLD
                 then slow_queries (database_performance mon) + 1
                 else slow_queries (database_performance mon))\<rparr>\<rparr>"

text \<open>The observations of a list of calls, recorded in order.\<close>

definition record_all :: "request list \<Rightarrow> PerformanceMonitor \<Rightarrow> PerformanceMonitor" where
  "record_all rqs mon = fold record_request rqs mon"

subsection \<open>\<^verbatim>\<open>get_metrics\<close>\<close>

record EndpointMetrics =
  em_total_requests :: nat
  average_response_time :: rat
  em_min_response_time :: rat
  em_max_response_time :: rat
  cache_hit_rate :: rat
  error_rate :: rat
  em_throughput :: rat
  em_status_codes :: "(int \<times> nat) list"

record DatabaseSummary = DatabasePerformance +
  slow_query_rate :: rat

text \<open>
  The dictionary \<^verbatim>\<open>get_metrics\<close> returns, without the entries that only copy a clock or
  \<^verbatim>\<open>psutil\<close> reading (memory, CPU, uptime, generation time). The keys that repeat a
  name of the monitor carry a prime.
\<close>

record Metrics =
  response_times :: "(string \<times> rat) list"
  endpoints :: "(string \<times> EndpointMetrics) list"
  cache_hit_rates :: "(string \<times> rat) list"
  error_rates' :: "(string \<times> rat) list"
  throughput' :: "(string \<times> rat) list"
  database_performance' :: DatabaseSummary
  total_metrics :: nat

text \<open>
  The percentile block. \<^verbatim>\<open>int(n * 0.5)\<close> and its siblings are computed on exact
  fractions.
\<close>

definition percentiles :: "rat list \<Rightarrow> (string \<times> rat) list option" where
  "percentiles unsorted =
     (let response_times = sort unsorted
      in if response_times \<noteq> []
         then do {
           let n = length response_times;
           p50 \<leftarrow> py_getitem response_times (py_int (of_nat n * (5 / 10)));
           p90 \<leftarrow> py_getitem response_times (py_int (of_nat n * (9 / 10)));
           p95 \<leftarrow> py_getitem response_times (py_int (of_nat n * (95 / 100)));
           p99 \<leftarrow> py_getitem response_times (py_int (of_nat n * (99 / 100)));
           lo \<leftarrow> py_min response_times;
           hi \<leftarrow> py_max response_times;
           avg \<leftarrow> py_truediv (sum_list response_times) (of_nat n);
           Some [(''p50'', p50), (''p90'', p90), (''p95'', p95), (''p99'', p99),
                 (''min'', lo), (''max'', hi), (''avg'', avg)]
         }
         else Some [])"

definition endpoint_metric :: "(string \<times> rat) list \<Rightarrow> string \<Rightarrow> EndpointStats \<Rightarrow> EndpointMetrics option" where
  "endpoint_metric thr ep stats =
     do {
       avg \<leftarrow> py_truediv (total_response_time stats) (of_nat (total_requests stats));
       hit \<leftarrow> py_truediv (of_nat (cache_hits stats)) (of_nat (total_requests stats));
       err \<leftarrow> py_truediv (of_nat (errors' stats)) (of_nat (total_requests stats));
       Some \<lparr>em_total_requests = total_requests stats,
             average_response_time = avg,
             em_min_response_time =
               (case min_response_time stats of Infinity \<Rightarrow> 0 | Finite m \<Rightarrow> m),
             em_max_response_time = max_response_time stats,
             cache_hit_rate = hit * 100,
             error_rate = err * 100,
             em_throughput = (case map_of thr ep of None \<Rightarrow> 0 | Some t \<Rightarrow> t),
             em_status_codes = status_codes stats\<rparr>
     }"

fun endpoint_metrics :: "(string \<times> rat) list \<Rightarrow> (string \<times> EndpointStats) list \<Rightarrow> (string \<times> EndpointMetrics) list option" where
  "endpoint_metrics thr [] = Some []"
| "endpoint_metrics thr ((ep, stats) # rest) =
     (if total_requests stats > 0
      then do {
        m \<leftarrow> endpoint_metric thr ep stats;
        ms \<leftarrow> endpoint_metrics thr rest;
        Some ((ep, m) # ms)
      }
      else endpoint_metrics thr rest)"

fun hit_rates :: "nat \<Rightarrow> (string \<times> nat) list \<Rightarrow> (string \<times> rat) list option" where
  "hit_rates total_cache_requests [] = Some []"
| "hit_rates total_cache_requests ((cache_type, n) # rest) =
     do {
       r \<leftarrow> py_truediv (of_nat n) (of_nat total_cache_requests);
       rs \<leftarrow> hit_rates total_cache_requests rest;
       Some ((cache_type, r * 100) # rs)
     }"

definition cache_hit_rates_of :: "(string \<times> nat) list \<Rightarrow> (string \<times> rat) list option" where
  "cache_hit_rates_of cs =
     (let total_cache_requests = sum_list (map snd cs)
      in if total_cache_requests > 0 then hit_rates total_cache_requests cs else Some [])"

definition db_performance :: "DatabasePerformance \<Rightarrow> DatabaseSummary option" where
  "db_performance dbp =
     do {
       avg \<leftarrow> (if total_queries dbp > 0
               then py_truediv (total_time dbp) (of_int (total_queries dbp))
               else Some 0);
       rate \<leftarrow> (if total_queries dbp > 0
                then map_option (\<lambda>q. q * 100)
                       (py_truediv (of_nat (slow_queries dbp)) (of_int (total_queries dbp)))
                else Some 0);
       Some \<lparr>total_queries = total_queries dbp, total_time = total_time dbp,
             average_time = avg, slow_queries = slow_queries dbp,
             slow_query_rate = rate\<rparr>
     }"

text \<open>
  \<^verbatim>\<open>get_metrics\<close>: \<open>None\<close> is the way out through the exception handler, which
  returns a dictionary that holds only the error text.
\<close>

definition get_metrics :: "PerformanceMonitor \<Rightarrow> Metrics option" where
  "get_metrics mon =
     do {
       ps \<leftarrow> percentiles (map response_time (metrics mon));
       em \<leftarrow> endpoint_metrics (throughput mon) (endpoint_stats mon);
       chr \<leftarrow> cache_hit_rates_of (cache_stats' mon);
       db \<leftarrow> db_performance (database_performance mon);
       Some \<lparr>response_times = ps, endpoints = em, cache_hit_rates = chr,
             error_rates' = error_rates mon, throughput' = throughput mon,
             database_performance' = db, total_metrics = length (metrics mon)\<rparr>
     }"

section \<open>dashboard/monitoring\_dashboard.py\<close>

text \<open>
  An alert. The message is a format string filled with a float; the model keeps which
  message it is and what it is filled with.
\<close>

datatype alert_message =
    HighResponseTime rat
  | HighErrorRate string rat
  | LowCacheHitRate string rat
  | HighMemoryUsage rat
  | ElevatedMemoryUsage rat
  | HighCPUUsage rat
  | ElevatedCPUUsage rat
  | HighSlowQueryRate rat

record Alert =
  alert_type :: string
  message :: alert_message
  alert_timestamp :: int
  severity :: string

text \<open>
  What \<^verbatim>\<open>_check_alerts\<close> reads of \<^verbatim>\<open>_get_system_metrics\<close>; \<open>None\<close> stands for the
  empty dictionary that is returned when \<^verbatim>\<open>psutil\<close> failed.
\<close>

record SystemMetrics =
  sys_memory_percent :: rat
  sys_cpu_percent :: rat

definition dict_get :: "('k \<times> 'v) list \<Rightarrow> 'k \<Rightarrow> 'v \<Rightarrow> 'v" where
  "dict_get d k dflt = (case map_of d k of None \<Rightarrow> dflt | Some v \<Rightarrow> v)"

definition error_rate_alerts :: "int \<Rightarrow> (string \<times> rat) list \<Rightarrow> Alert list" where
  "error_rate_alerts t rates =
     map (\<lambda>(ep, rate).
            \<lparr>alert_type = ''error'', message = HighErrorRate ep rate,
             alert_timestamp = t, severity = ''high''\<rparr>)
         (filter (\<lambda>(ep, rate). rate > 5) rates)"

definition cache_hit_rate_alerts :: "int \<Rightarrow> (string \<times> rat) list \<Rightarrow> Alert list" where
  "cache_hit_rate_alerts t rates =
     map (\<lambda>(cache_type, rate).
            \<lparr>alert_type = ''warning'', message = LowCacheHitRate cache_type rate,
             alert_timestamp = t, severity = ''low''\<rparr>)
         (filter (\<lambda>(cache_type, rate). rate < 50) rates)"

definition check_alerts :: "int \<Rightarrow> Metrics option \<Rightarrow> stats_snapshot \<Rightarrow> SystemMetrics option \<Rightarrow> Alert list" where
  "check_alerts t performance_metrics cache_statistics system_metrics =
     (let rts = (case performance_metrics of None \<Rightarrow> [] | Some m \<Rightarrow> response_times m);
          p95 = dict_get rts ''p95'' 0;
          rates = (case performance_metrics of None \<Rightarrow> [] | Some m \<Rightarrow> error_rates' m);
          hit = (case performance_metrics of None \<Rightarrow> [] | Some m \<Rightarrow> cache_hit_rates m);
          mem = (case system_metrics of None \<Rightarrow> 0 | Some y \<Rightarrow> sys_memory_percent y);
          cpu = (case system_metrics of None \<Rightarrow> 0 | Some y \<Rightarrow> sys_cpu_percent y);
          slow = (case performance_metrics of None \<Rightarrow> 0
                  | Some m \<Rightarrow> slow_query_rate (database_performance' m))
      in (if p95 > 1
          then [\<lparr>alert_type = ''warning'', message = HighResponseTime p95,
                  alert_timestamp = t, severity = ''medium''\<rparr>]
          else [])
       @ error_rate_alerts t rates
       @ cache_hit_rate_alerts t hit
       @ (if mem > 90
          then [\<lparr>alert_type = ''critical'', message = HighMemoryUsage mem,
                  alert_timestamp = t, severity = ''critical''\<rparr>]
          else if mem > 80
          then [\<lparr>alert_type = ''warning'', message = ElevatedMemoryUsage mem,
                  alert_timestamp = t, severity = ''medium''\<rparr>]
          else [])
       @ (if cpu > 90
          then [\<lparr>alert_type = ''critical'', message = HighCPUUsage cpu,
                  alert_timestamp = t, severity = ''critical''\<rparr>]
          else if cpu > 80
          then [\<lparr>alert_type = ''warning'', message = ElevatedCPUUsage cpu,
                  alert_timestamp = t, severity = ''medium''\<rparr>]
          else [])
       @ (if slow > 10
          then [\<lparr>alert_type = ''warning'', message = HighSlowQueryRate slow,
                  alert_timestamp = t, severity = ''medium''\<rparr>]
          else []))"

text \<open>The alerts of the error-rate check among a list of alerts.\<close>

definition error_alerts :: "Alert list \<Rightarrow> Alert list" where
  "error_alerts alerts =
     filter (\<lambda>a. alert_type a = ''error'' \<and> severity a = ''high'') alerts"

section \<open>services/search\_service.py: the cache key\<close>





























section \<open>Auxiliary notions and concrete scenarios\<close>


text \<open>
  The bound behind the error rates of a monitor: no endpoint has more errors than
  requests, and no stored rate exceeds \<open>1\<close>.
\<close>

definition rates_bounded :: "PerformanceMonitor \<Rightarrow> bool" where
  "rates_bounded mon =
     (list_all (\<lambda>(ep, st). errors' st \<le> total_requests st) (endpoint_stats mon)
      \<and> list_all (\<lambda>(ep, r). r \<le> 1) (error_rates mon))"

text \<open>A product cached for an hour, and the state after its pattern was deleted.\<close>

definition product_written :: CacheService where
  "product_written =
     snd (set' sample_externals (at_time 0 False) ''product:1'' (PStr ''widget'') (Some 3600)
            connected_service)"

definition product_pattern_deleted :: "nat \<times> CacheService" where
  "product_pattern_deleted =
     delete_pattern sample_externals (at_time 1 False) ''product:*'' product_written"

text \<open>
  An entry written with a time-to-live of 400 seconds at time 0 and read again at time
  350, after the local copy has expired and before the shared one has.
\<close>

definition written_for_400 :: CacheService where
  "written_for_400 =
     snd (set' sample_externals (at_time 0 False) ''k'' (PStr ''v'') (Some 400)
            connected_service)"

definition read_at_350 :: "outcome \<times> CacheService" where
  "read_at_350 = get sample_externals (at_time 350 False) ''k'' written_for_400"


text \<open>A request to the endpoint \<^verbatim>\<open>api\<close> that took \<open>rt\<close> seconds and ended with status 500.\<close>

definition error_request :: "rat \<Rightarrow> request" where
  "error_request rt =
     \<lparr>arg_endpoint = ''api'', arg_response_time = rt, arg_status_code = 500,
      arg_method = ''GET'', arg_user_id = None, arg_ip_address = None,
      arg_cache_hit = False, arg_database_queries = 0, arg_database_time = 0,
      utcnow = 0, current_time = 0, memory_percent = 50, cpu_percent = 50\<rparr>"

definition one_error :: PerformanceMonitor where
  "one_error = record_request (error_request (1 / 10)) PerformanceMonitor_init"

definition quiet_system :: SystemMetrics where
  "quiet_system = \<lparr>sys_memory_percent = 50, sys_cpu_percent = 50\<rparr>"

text \<open>The response times \<open>0.1, 0.2, \<dots>, 1.0\<close>, and a monitor that recorded them out of order.\<close>

definition tenths :: "rat list" where
  "tenths = [1 / 10, 2 / 10, 3 / 10, 4 / 10, 5 / 10, 6 / 10, 7 / 10, 8 / 10, 9 / 10, 10 / 10]"

definition tenths_monitor :: PerformanceMonitor where
  "tenths_monitor =
     record_all
       (map error_request [7 / 10, 1 / 10, 10 / 10, 4 / 10, 2 / 10, 9 / 10, 5 / 10, 3 / 10, 8 / 10, 6 / 10])
       PerformanceMonitor_init"










text \<open>The value \<^verbatim>\<open>{(1, 2): 3}\<close>, written for a minute while Redis is up.\<close>

definition tuple_key_written :: "bool \<times> CacheService" where
  "tuple_key_written =
     set' sample_externals (at_time 100 False) ''k'' (PTupleKeyDict [1, 2] 3) (Some 60)
       connected_service"

section \<open>Evaluation rules\<close>

lemmas cache_eval =
  get_def get_redis_def set'_def delete_def delete_pattern_def
  inc_hits_def inc_misses_def inc_sets_def inc_errors_def add_deletes_def
  connected_service_def initialize_def CacheService_init_def at_time_def
  ttl_or_default_def serialize_def deserialize_def startswith_def
  sample_externals_def sample_json_dumps_def sample_json_loads_def
  CACHE_DEFAULT_TTL_def CACHE_SHORT_TTL_def CACHE_PREFIX_def CACHE_COMPRESSION_def
  CACHE_SERIALIZER_def get_cache_key_def redis_get_def redis_setex_def redis_keys_def
  local_expiry_def shared_expiry_def local_within_shared_def

lemmas monitor_eval =
  record_request_def PerformanceMonitor_init_def error_request_def one_error_def
  metric_of_def update_endpoint_stats_def update_database_performance_def deque_append_def
  defaultdict_get_def default_endpoint_stats_def metrics_maxlen_def SLOW_QUERY_THRESHOLD_def
  ENABLE_METRICS_def get_metrics_def percentiles_def endpoint_metric_def
  cache_hit_rates_of_def db_performance_def py_getitem_def py_int_def py_truediv_def Let_def


section \<open>The cache key of a search request\<close>








section \<open>The two tiers of the cache\<close>

lemma set_local_entry:
  "serialize L s v \<noteq> None \<Longrightarrow>
   map_of (local_cache (snd (set' L e k v ttl s))) k
     = Some \<lparr>data = v, expires_at = now e + min (ttl_or_default ttl) CACHE_SHORT_TTL\<rparr>"
  by (auto simp: set'_def Let_def update_conv' inc_sets_def inc_errors_def
      split: option.splits)

text \<open>A value that cannot be serialized is stored nowhere: the call only counts an error.\<close>

lemma set_unserializable:
  "serialize L s v = None \<Longrightarrow> set' L e k v ttl s = (False, inc_errors s)"
  by (simp add: set'_def)

lemma set_True_serialized:
  "fst (set' L e k v ttl s) = True \<Longrightarrow> \<exists>b. serialize L s v = Some b"
  by (cases "serialize L s v") (simp_all add: set'_def)

lemma set_serializer: "serializer (snd (set' L e k v ttl s)) = serializer s"
  by (simp add: set'_def Let_def inc_sets_def inc_errors_def split: option.splits)

lemma deserialize_serializer:
  "serializer s' = serializer s \<Longrightarrow> deserialize L s' d = deserialize L s d"
  unfolding deserialize_def by presburger

text \<open>
  The cap of \<^verbatim>\<open>set\<close>: after a \<^verbatim>\<open>set\<close> whose write to Redis went through, the local
  entry expires no later than the shared one.
\<close>

lemma set_local_expiry_within_shared:
  assumes "fst (set' L e k v ttl s) = True" and "redis_client s \<noteq> None"
  shows "\<exists>l g. local_expiry (snd (set' L e k v ttl s)) k = Some l
       \<and> shared_expiry (snd (set' L e k v ttl s)) k = Some g \<and> l \<le> g"
  using assms
  by (auto simp: set'_def Let_def local_expiry_def shared_expiry_def update_conv'
      redis_setex_def inc_sets_def inc_errors_def split: option.splits if_splits)

text \<open>
  C2 at the failing input. The entry is written at time 0 for 400 seconds: it expires
  locally at 300 and in Redis at 400. The \<^verbatim>\<open>get\<close> at time 350 finds it in Redis and
  stores it locally until 650, which is \<open>350 + CACHE_SHORT_TTL\<close> and not
  \<open>350 + min(remaining, CACHE_SHORT_TTL) = 400\<close>: the local copy outlives the shared one.
\<close>

theorem get_repopulation_outlives_shared_entry:
  "local_expiry written_for_400 ''k'' = Some 300
   \<and> shared_expiry written_for_400 ''k'' = Some 400
   \<and> fst read_at_350 = Found (PStr ''v'')
   \<and> local_expiry (snd read_at_350) ''k'' = Some 650
   \<and> shared_expiry (snd read_at_350) ''k'' = Some 400
   \<and> \<not> local_within_shared (snd read_at_350) ''k''"
  by (simp add: cache_eval written_for_400_def read_at_350_def)

text \<open>
  C5, as stated, fails, in two ways. With a negative time-to-live the local entry is
  written already expired, and the \<^verbatim>\<open>get\<close> that follows at once drops it and, Redis
  being down, gives \<^verbatim>\<open>None\<close>. With the value \<^verbatim>\<open>{(1, 2): 3}\<close>, which \<^verbatim>\<open>json.dumps\<close>
  rejects, \<^verbatim>\<open>set\<close> returns \<^verbatim>\<open>False\<close> before it has stored anything, and the \<^verbatim>\<open>get\<close> that
  follows gives \<^verbatim>\<open>None\<close>.
\<close>

theorem set_then_get_counterexample:
  "returned (fst (get sample_externals (at_time 100 True) ''k''
      (snd (set' sample_externals (at_time 100 True) ''k'' (PStr ''v'') (Some (- 1))
              connected_service))))
   = PNone
   \<and> fst tuple_key_written = False
   \<and> local_cache (snd tuple_key_written) = []
   \<and> redis_client (snd tuple_key_written) = Some []
   \<and> returned (fst (get sample_externals (at_time 100 False) ''k'' (snd tuple_key_written)))
     = PNone"
  by (simp add: cache_eval tuple_key_written_def)

text \<open>
  C5, amended: for every key, every value that \<^verbatim>\<open>_serialize\<close> accepts and every
  time-to-live that is not negative (absent, zero or positive), a \<^verbatim>\<open>get\<close> at the clock
  reading of the \<^verbatim>\<open>set\<close> returns the value from the local tier, through the local branch
  alone (one hit is counted, nothing else changes), whatever the shared tier does; and a
  \<^verbatim>\<open>set\<close> whose Redis command fails returns \<^verbatim>\<open>False\<close> after counting one error.
\<close>

theorem set_then_get_local:
  assumes "\<forall>t. ttl = Some t \<longrightarrow> 0 \<le> t" and "now e2 = now e1"
    and "serialize L s v \<noteq> None"
  shows "get L e2 k (snd (set' L e1 k v ttl s)) = (Found v, inc_hits (snd (set' L e1 k v ttl s)))
       \<and> (redis_client s \<noteq> None \<and> redis_down e1 \<longrightarrow>
            fst (set' L e1 k v ttl s) = False
          \<and> errors (CacheService.cache_stats (snd (set' L e1 k v ttl s)))
              = errors (CacheService.cache_stats s) + 1)"
proof -
  have pos: "0 < min (ttl_or_default ttl) CACHE_SHORT_TTL"
    using assms(1)
    by (cases ttl) (auto simp: ttl_or_default_def CACHE_DEFAULT_TTL_def CACHE_SHORT_TTL_def)
  show ?thesis
    using pos assms(2,3) set_local_entry[OF assms(3), of e1 k ttl]
    by (auto simp: get_def set'_def Let_def inc_errors_def split: option.splits)
qed

text \<open>Witness for C5: a minute of time-to-live, written and read while Redis is down.\<close>

theorem set_then_get_local_witness:
  "(0 :: int) \<le> 60
   \<and> now (at_time 100 True) = now (at_time 100 True)
   \<and> serialize sample_externals connected_service (PStr ''v'') \<noteq> None
   \<and> redis_down (at_time 100 True)
   \<and> fst (get sample_externals (at_time 100 True) ''k''
        (snd (set' sample_externals (at_time 100 True) ''k'' (PStr ''v'') (Some 60)
                connected_service))) = Found (PStr ''v'')
   \<and> fst (set' sample_externals (at_time 100 True) ''k'' (PStr ''v'') (Some 60)
            connected_service) = False"
proof -
  have h1: "\<forall>t. Some (60 :: int) = Some t \<longrightarrow> 0 \<le> t" by simp
  have h2: "now (at_time 100 True) = now (at_time 100 True)" by simp
  have h3: "redis_client connected_service \<noteq> None \<and> redis_down (at_time 100 True)"
    by (simp add: connected_service_def initialize_def at_time_def)
  have h4: "serialize sample_externals connected_service (PStr ''v'') \<noteq> None"
    by (simp add: cache_eval)
  from set_then_get_local[OF h1 h2 h4, of "''k''"] h1 h3 h4
  show ?thesis by simp
qed

text \<open>
  C6 at the failing input. After \<^verbatim>\<open>set("product:1", \<dots>)\<close>, the call
  \<^verbatim>\<open>delete_pattern("product:*")\<close> removes the key from Redis and returns 1, and leaves
  the local entry where it is: the \<^verbatim>\<open>get\<close> that follows still returns the value.
\<close>

theorem delete_pattern_keeps_local_entry:
  "fst product_pattern_deleted = 1
   \<and> redis_client (snd product_pattern_deleted) = Some []
   \<and> map_of (local_cache (snd product_pattern_deleted)) ''product:1''
       = Some \<lparr>data = PStr ''widget'', expires_at = 300\<rparr>
   \<and> fst (get sample_externals (at_time 2 False) ''product:1'' (snd product_pattern_deleted))
       = Found (PStr ''widget'')"
  by (simp add: cache_eval product_written_def product_pattern_deleted_def)

text \<open>
  \<^verbatim>\<open>delete_pattern\<close> never touches the local tier, not even the entry whose key is the
  pattern itself; \<^verbatim>\<open>delete\<close> does remove the local entry.
\<close>

lemma delete_pattern_local_cache:
  "local_cache (snd (delete_pattern L e p s)) = local_cache s"
  by (simp add: delete_pattern_def Let_def inc_errors_def add_deletes_def
      split: option.splits prod.splits)

lemma delete_local_cache:
  "map_of (local_cache (snd (delete e k s))) k = None"
  by (simp add: delete_def Let_def inc_errors_def add_deletes_def delete_conv'
      split: option.splits)

subsection \<open>A stored \<^verbatim>\<open>None\<close>\<close>

lemma redis_get_update_cases:
  "redis_get (AList.update k (b, x) st) t k = None
   \<or> redis_get (AList.update k (b, x) st) t k = Some b"
  by (simp add: redis_get_def update_conv')

lemma get_after_set_None:
  assumes ok: "fst (set' L e1 k PNone ttl s) = True"
    and codec: "\<forall>b d. serialize L s PNone = Some b \<longrightarrow> deserialize L s b = Some d \<longrightarrow> d = PNone"
  shows "returned (fst (get L e2 k (snd (set' L e1 k PNone ttl s)))) = PNone"
proof -
  let ?s1 = "snd (set' L e1 k PNone ttl s)"
  obtain b where ser: "serialize L s PNone = Some b"
    using set_True_serialized[OF ok] by blast
  have dec: "\<forall>d. deserialize L s b = Some d \<longrightarrow> d = PNone"
    using codec ser by blast
  have des: "\<And>lc d. deserialize L (?s1\<lparr>local_cache := lc\<rparr>) d = deserialize L s d"
    by (rule deserialize_serializer) (simp add: set_serializer)
  have red: "redis_client ?s1 = None \<or>
     (\<exists>st x. redis_client ?s1
               = Some (AList.update (get_cache_key k) (b, x) st))"
    using ok ser
    by (auto simp: set'_def Let_def inc_sets_def inc_errors_def redis_setex_def
        split: option.splits if_splits)
  have redis: "returned (fst (get_redis L e2 k (?s1\<lparr>local_cache := lc\<rparr>))) = PNone" for lc
    using red
  proof
    assume "redis_client ?s1 = None"
    then show ?thesis by (simp add: get_redis_def)
  next
    assume "\<exists>st x. redis_client ?s1
                     = Some (AList.update (get_cache_key k) (b, x) st)"
    then obtain st x where st:
      "redis_client ?s1 = Some (AList.update (get_cache_key k) (b, x) st)"
      by blast
    show ?thesis
      using redis_get_update_cases[of "get_cache_key k" b x st "now e2"] dec
      by (auto simp: get_redis_def st des split: option.splits)
  qed
  have loc: "map_of (local_cache ?s1) k
      = Some \<lparr>data = PNone, expires_at = now e1 + min (ttl_or_default ttl) CACHE_SHORT_TTL\<rparr>"
    using ser by (intro set_local_entry) simp
  show ?thesis
    using redis[of "AList.delete k (local_cache ?s1)"] loc
    by (simp add: get_def)
qed

text \<open>
  C10: after a \<^verbatim>\<open>set(k, None, ttl)\<close> that returned \<^verbatim>\<open>True\<close>, a \<^verbatim>\<open>get(k)\<close> at any later
  moment, with Redis up or down, returns \<^verbatim>\<open>None\<close>, as a miss does (the decoder is
  taken to give \<^verbatim>\<open>None\<close> back for the bytes \<^verbatim>\<open>None\<close> was encoded to, when it does not
  raise); and \<^verbatim>\<open>get_or_set\<close> on that key calls the factory and returns its value.
\<close>

theorem stored_None_reads_as_absent:
  assumes ok: "fst (set' L e1 k PNone ttl s) = True"
    and codec: "\<forall>b d. serialize L s PNone = Some b \<longrightarrow> deserialize L s b = Some d \<longrightarrow> d = PNone"
  shows "returned (fst (get L e2 k (snd (set' L e1 k PNone ttl s)))) = PNone
     \<and> (\<exists>s2. get_or_set L e2 e3 k f w ttl' (snd (set' L e1 k PNone ttl s))
               = (fst (f w), snd (f w), s2))"
proof -
  let ?s1 = "snd (set' L e1 k PNone ttl s)"
  obtain r s2 where g: "get L e2 k ?s1 = (r, s2)" by (cases "get L e2 k ?s1")
  have r: "returned r = PNone" using get_after_set_None[OF ok codec, of e2] g by simp
  show ?thesis
    using r g get_after_set_None[OF ok codec, of e2]
    by (simp add: get_or_set_def Let_def split: prod.splits)
qed

text \<open>
  Witness for C10: \<^verbatim>\<open>None\<close> stored for a minute; the factory counts its calls and
  returns the count.
\<close>

theorem stored_None_reads_as_absent_witness:
  "fst (set' sample_externals (at_time 0 False) ''k'' PNone (Some 60) connected_service) = True
   \<and> returned (fst (get sample_externals (at_time 1 False) ''k''
        (snd (set' sample_externals (at_time 0 False) ''k'' PNone (Some 60) connected_service))))
      = PNone
   \<and> fst (get_or_set sample_externals (at_time 1 False) (at_time 2 False) ''k''
            (\<lambda>n. (PInt (int n), Suc n)) 0 None
            (snd (set' sample_externals (at_time 0 False) ''k'' PNone (Some 60) connected_service)))
      = PInt 0
   \<and> fst (snd (get_or_set sample_externals (at_time 1 False) (at_time 2 False) ''k''
            (\<lambda>n. (PInt (int n), Suc n)) 0 None
            (snd (set' sample_externals (at_time 0 False) ''k'' PNone (Some 60) connected_service))))
      = Suc 0"
proof -
  have h1: "fst (set' sample_externals (at_time 0 False) ''k'' PNone (Some 60) connected_service)
            = True"
    by (simp add: cache_eval)
  have h2: "\<forall>b d. serialize sample_externals connected_service PNone = Some b
                \<longrightarrow> deserialize sample_externals connected_service b = Some d \<longrightarrow> d = PNone"
    by (auto simp: cache_eval)
  from stored_None_reads_as_absent[OF h1 h2, of "at_time 1 False" "at_time 2 False"
      "\<lambda>n. (PInt (int n), Suc n)" 0 None] h1
  show ?thesis by auto
qed

subsection \<open>Hits and misses\<close>











section \<open>The rolling window of the monitor\<close>

lemma metrics_record_request:
  "metrics (record_request rq mon) = deque_append metrics_maxlen (metrics mon) (metric_of rq)"
  by (simp add: record_request_def Let_def)

lemma deque_append_window:
  assumes "0 < n"
  shows "deque_append n (drop (length ys - n) ys) x = drop (length (ys @ [x]) - n) (ys @ [x])"
proof (cases "length ys < n")
  case True
  then show ?thesis by (simp add: deque_append_def Let_def)
next
  case False
  then have le: "n \<le> length ys" by simp
  have ne: "drop (length ys - n) ys \<noteq> []" using le assms by simp
  have "tl (drop (length ys - n) ys @ [x]) = tl (drop (length ys - n) ys) @ [x]"
    using ne by simp
  also have "\<dots> = drop (Suc (length ys - n)) ys @ [x]"
    by (simp add: drop_Suc tl_drop)
  finally have tl_eq:
    "tl (drop (length ys - n) ys @ [x]) = drop (Suc (length ys - n)) ys @ [x]" .
  have idx: "length (ys @ [x]) - n = Suc (length ys - n)" using le by simp
  show ?thesis
    using le assms tl_eq idx by (simp add: deque_append_def Let_def)
qed

lemma metrics_record_all:
  "metrics (record_all rqs mon)
     = fold (\<lambda>rq d. deque_append metrics_maxlen d (metric_of rq)) rqs (metrics mon)"
  unfolding record_all_def
  by (induction rqs arbitrary: mon) (simp_all add: metrics_record_request)

lemma fold_deque_window:
  assumes "0 < n" and "length d \<le> n"
  shows "fold (\<lambda>rq d. deque_append n d (f rq)) rqs d
       = drop (length (d @ map f rqs) - n) (d @ map f rqs)"
proof (induction rqs rule: rev_induct)
  case Nil
  then show ?case using assms by simp
next
  case (snoc rq rqs)
  show ?case
    using deque_append_window[OF assms(1), of "d @ map f rqs" "f rq"] snoc.IH
    by simp
qed

text \<open>
  C7: after \<open>10000 + K\<close> calls of \<^verbatim>\<open>record_request\<close> on a fresh monitor, the window
  holds exactly 10000 observations: those of the calls \<open>K + 1\<close> to \<open>10000 + K\<close>, in order.
\<close>

theorem window_keeps_most_recent:
  assumes "length rqs = metrics_maxlen + K"
  shows "metrics (record_all rqs PerformanceMonitor_init) = drop K (map metric_of rqs)
       \<and> length (metrics (record_all rqs PerformanceMonitor_init)) = metrics_maxlen
       \<and> metrics_maxlen = 10000"
proof -
  have pos: "0 < metrics_maxlen" by (simp add: metrics_maxlen_def)
  have "metrics (record_all rqs PerformanceMonitor_init)
      = drop (length rqs - metrics_maxlen) (map metric_of rqs)"
    using fold_deque_window[OF pos, of "[]" metric_of rqs]
    by (simp add: metrics_record_all PerformanceMonitor_init_def)
  then show ?thesis using assms by (simp add: metrics_maxlen_def)
qed

text \<open>Witness for C7: 10003 requests, the first three of which are dropped.\<close>

theorem window_keeps_most_recent_witness:
  "length (map error_request (replicate 3 (9 / 10) @ replicate 10000 (1 / 10)))
     = metrics_maxlen + 3
   \<and> metrics (record_all (map error_request (replicate 3 (9 / 10) @ replicate 10000 (1 / 10)))
        PerformanceMonitor_init)
     = map metric_of (map error_request (replicate 10000 (1 / 10)))"
proof -
  have h: "length (map error_request (replicate 3 (9 / 10) @ replicate 10000 (1 / 10)))
           = metrics_maxlen + 3"
    by (simp add: metrics_maxlen_def)
  have d: "drop 3 (map metric_of (map error_request (replicate 3 (9 / 10) @ replicate 10000 (1 / 10))))
           = map metric_of (map error_request (replicate 10000 (1 / 10)))"
    by simp
  from window_keeps_most_recent[OF h] h d show ?thesis by metis
qed

section \<open>The snapshot of the monitor\<close>

lemma py_getitem_floor:
  assumes "0 \<le> q" and "q < 1" and "xs \<noteq> []"
  shows "py_getitem xs (py_int (of_nat (length xs) * q))
       = Some (xs ! nat \<lfloor>of_nat (length xs) * q\<rfloor>)"
proof -
  let ?n = "length xs"
  have n: "0 < ?n" using assms(3) by simp
  have nonneg: "0 \<le> (of_nat ?n :: rat) * q" using assms(1) by simp
  have "(of_nat ?n :: rat) * q < of_nat ?n" using assms(2) n by simp
  then have lt: "\<lfloor>(of_nat ?n :: rat) * q\<rfloor> < int ?n"
    by (simp add: floor_less_iff)
  have ge: "0 \<le> \<lfloor>(of_nat ?n :: rat) * q\<rfloor>" using nonneg by simp
  show ?thesis
    using lt ge nonneg by (simp add: py_getitem_def py_int_def Let_def)
qed

lemma percentiles_total: "\<exists>ps. percentiles xs = Some ps"
proof (cases "xs = []")
  case True
  then show ?thesis by (simp add: percentiles_def)
next
  case False
  then have ne: "sort xs \<noteq> []" by (metis length_sort length_0_conv)
  then obtain y ys where s: "sort xs = y # ys" by (cases "sort xs") auto
  have n0: "(of_nat (length xs) :: rat) \<noteq> 0" using False by simp
  show ?thesis
    unfolding percentiles_def Let_def
    using ne py_getitem_floor[of "5 / 10" "sort xs"] py_getitem_floor[of "9 / 10" "sort xs"]
      py_getitem_floor[of "95 / 100" "sort xs"] py_getitem_floor[of "99 / 100" "sort xs"] n0
    by (simp add: s py_truediv_def)
qed

lemma endpoint_metrics_total: "\<exists>ms. endpoint_metrics thr st = Some ms"
proof (induction thr st rule: endpoint_metrics.induct)
  case (1 thr)
  then show ?case by simp
next
  case (2 thr ep stats rest)
  then show ?case
    by (cases "0 < total_requests stats") (auto simp: endpoint_metric_def py_truediv_def)
qed

lemma hit_rates_total: "0 < n \<Longrightarrow> \<exists>rs. hit_rates n cs = Some rs"
  by (induction n cs rule: hit_rates.induct) (auto simp: py_truediv_def)

lemma cache_hit_rates_of_total: "\<exists>rs. cache_hit_rates_of cs = Some rs"
  using hit_rates_total by (simp add: cache_hit_rates_of_def Let_def)

lemma db_performance_total: "\<exists>db. db_performance dbp = Some db"
  by (simp add: db_performance_def py_truediv_def)

text \<open>No division and no index of \<^verbatim>\<open>get_metrics\<close> raises, whatever the monitor holds.\<close>

lemma get_metrics_total: "\<exists>snap. get_metrics mon = Some snap"
proof -
  obtain ps where ps: "percentiles (map response_time (metrics mon)) = Some ps"
    using percentiles_total by blast
  obtain em where em: "endpoint_metrics (throughput mon) (endpoint_stats mon) = Some em"
    using endpoint_metrics_total by blast
  obtain chr where chr: "cache_hit_rates_of (cache_stats' mon) = Some chr"
    using cache_hit_rates_of_total by blast
  obtain db where db: "db_performance (database_performance mon) = Some db"
    using db_performance_total by blast
  show ?thesis by (simp add: get_metrics_def ps em chr db)
qed

lemma get_metrics_response_times:
  assumes "percentiles (map response_time (metrics mon)) = Some ps"
  shows "\<exists>snap. get_metrics mon = Some snap \<and> response_times snap = ps"
proof -
  obtain em where em: "endpoint_metrics (throughput mon) (endpoint_stats mon) = Some em"
    using endpoint_metrics_total by blast
  obtain chr where chr: "cache_hit_rates_of (cache_stats' mon) = Some chr"
    using cache_hit_rates_of_total by blast
  obtain db where db: "db_performance (database_performance mon) = Some db"
    using db_performance_total by blast
  show ?thesis by (simp add: get_metrics_def assms em chr db)
qed

lemma percentiles_tenths:
  assumes "mset xs = mset tenths"
  shows "percentiles xs
       = Some [(''p50'', 6 / 10), (''p90'', 1), (''p95'', 1), (''p99'', 1),
               (''min'', 1 / 10), (''max'', 1), (''avg'', 11 / 20)]"
proof -
  have "sorted tenths" by (simp add: tenths_def)
  then have s: "sort xs = tenths"
    using assms by (metis properties_for_sort)
  have f1: "\<lfloor>19 / 2 :: rat\<rfloor> = 9" by (simp add: floor_eq_iff)
  have f2: "\<lfloor>99 / 10 :: rat\<rfloor> = 9" by (simp add: floor_eq_iff)
  show ?thesis
    unfolding percentiles_def s
    by (simp add: tenths_def py_getitem_def py_int_def py_truediv_def Let_def f1 f2)
qed

text \<open>
  The percentile block in general: on a window of \<open>n > 0\<close> response times, \<^verbatim>\<open>p50\<close> is the
  element of index \<open>\<lfloor>n / 2\<rfloor>\<close> of the sorted window, and likewise for the other three.
\<close>

lemma percentiles_order_statistics:
  assumes "xs \<noteq> []" and "percentiles xs = Some ps"
  shows "map_of ps ''p50'' = Some (sort xs ! (length xs * 5 div 10))
       \<and> map_of ps ''p90'' = Some (sort xs ! (length xs * 9 div 10))
       \<and> map_of ps ''p95'' = Some (sort xs ! (length xs * 95 div 100))
       \<and> map_of ps ''p99'' = Some (sort xs ! (length xs * 99 div 100))"
proof -
  have ne: "sort xs \<noteq> []" using assms(1) by (metis length_sort length_0_conv)
  have fl: "nat \<lfloor>(of_nat n :: rat) * (of_nat a / of_nat b)\<rfloor> = n * a div b" for n a b :: nat
  proof -
    have "(of_nat n :: rat) * (of_nat a / of_nat b) = of_nat (n * a) / of_nat b" by simp
    then show ?thesis by (simp only: floor_divide_of_nat_eq nat_int)
  qed
  have g: "py_getitem (sort xs) (py_int (of_nat (length (sort xs)) * (of_nat a / of_nat b)))
         = Some (sort xs ! (length xs * a div b))" if "a < b" for a b :: nat
  proof -
    have "(0 :: rat) \<le> of_nat a / of_nat b" by simp
    moreover have "(of_nat a :: rat) / of_nat b < 1" using that by simp
    ultimately show ?thesis
      using py_getitem_floor[of "of_nat a / of_nat b" "sort xs"] ne fl[of "length xs" a b]
      by simp
  qed
  from g[of 5 10] g[of 9 10] g[of 95 100] g[of 99 100] assms(2) ne
  show ?thesis
    by (auto simp: percentiles_def Let_def split: bind_splits if_splits)
qed

text \<open>
  C8: when the window holds exactly the response times \<open>0.1, 0.2, \<dots>, 1.0\<close>, in whatever
  order, the snapshot is computed without error and its percentile block is read off the
  sorted window: \<^verbatim>\<open>p50\<close> is the element of index \<open>int(10 * 0.5) = 5\<close>, which is \<open>0.6\<close>;
  \<^verbatim>\<open>p90\<close>, \<^verbatim>\<open>p95\<close> and \<^verbatim>\<open>p99\<close> are the element of index 9, which is \<open>1.0\<close>; the minimum
  is \<open>0.1\<close>, the maximum \<open>1.0\<close>, the average \<open>0.55\<close>.
\<close>

theorem percentiles_of_tenths:
  assumes "mset (map response_time (metrics mon)) = mset tenths"
  shows "\<exists>snap. get_metrics mon = Some snap
       \<and> response_times snap
           = [(''p50'', sort tenths ! 5), (''p90'', sort tenths ! 9), (''p95'', sort tenths ! 9),
              (''p99'', sort tenths ! 9), (''min'', Min (set tenths)), (''max'', Max (set tenths)),
              (''avg'', sum_list tenths / 10)]
       \<and> response_times snap
           = [(''p50'', 6 / 10), (''p90'', 1), (''p95'', 1), (''p99'', 1),
              (''min'', 1 / 10), (''max'', 1), (''avg'', 55 / 100)]"
proof -
  have v: "sort tenths ! 5 = 6 / 10" "sort tenths ! 9 = 1" "Min (set tenths) = 1 / 10"
    "Max (set tenths) = 1" "sum_list tenths / 10 = 55 / 100"
    by (simp_all add: tenths_def)
  from get_metrics_response_times[OF percentiles_tenths[OF assms]]
  obtain snap where s: "get_metrics mon = Some snap"
    and r: "response_times snap
              = [(''p50'', 6 / 10), (''p90'', 1), (''p95'', 1), (''p99'', 1),
                 (''min'', 1 / 10), (''max'', 1), (''avg'', 11 / 20)]"
    by blast
  have "response_times snap
          = [(''p50'', sort tenths ! 5), (''p90'', sort tenths ! 9), (''p95'', sort tenths ! 9),
             (''p99'', sort tenths ! 9), (''min'', Min (set tenths)), (''max'', Max (set tenths)),
             (''avg'', sum_list tenths / 10)]"
    by (simp add: r v)
  with s r show ?thesis by simp
qed

text \<open>Witness for C8: the ten response times recorded out of order.\<close>

theorem percentiles_of_tenths_witness:
  "mset (map response_time (metrics tenths_monitor)) = mset tenths
   \<and> map_option response_times (get_metrics tenths_monitor)
       = Some [(''p50'', 6 / 10), (''p90'', 1), (''p95'', 1), (''p99'', 1),
               (''min'', 1 / 10), (''max'', 1), (''avg'', 55 / 100)]"
proof -
  have m: "map response_time (metrics tenths_monitor)
         = [7 / 10, 1 / 10, 10 / 10, 4 / 10, 2 / 10, 9 / 10, 5 / 10, 3 / 10, 8 / 10, 6 / 10]"
    by (simp add: tenths_monitor_def metrics_record_all PerformanceMonitor_init_def
        deque_append_def metrics_maxlen_def metric_of_def error_request_def)
  have h: "mset (map response_time (metrics tenths_monitor)) = mset tenths"
    unfolding m by (simp add: tenths_def)
  from percentiles_of_tenths[OF h] h show ?thesis by auto
qed

text \<open>
  C9, as stated, fails: the snapshot of a fresh monitor has no \<^verbatim>\<open>p50\<close> at all: the
  percentile dictionary is empty, it does not hold zeros.
\<close>

theorem empty_snapshot_has_no_percentiles_counterexample:
  "map_option (\<lambda>snap. map_of (response_times snap) ''p50'') (get_metrics PerformanceMonitor_init)
     = Some None
   \<and> map_option (\<lambda>snap. map_of (response_times snap) ''avg'') (get_metrics PerformanceMonitor_init)
     \<noteq> Some (Some 0)"
  by (simp add: get_metrics_def PerformanceMonitor_init_def percentiles_def
      cache_hit_rates_of_def db_performance_def)

lemma endpoint_metrics_none:
  "list_all (\<lambda>(ep, st). total_requests st = 0) sts \<Longrightarrow> endpoint_metrics thr sts = Some []"
  by (induction thr sts rule: endpoint_metrics.induct) auto

text \<open>
  C9, amended: on a monitor that holds no observation, no endpoint with a request, no
  cache-hit counter and no database query, the snapshot is computed without error; the
  average time and the slow-query rate of the database are 0, and the percentile
  dictionary, the per-endpoint dictionary and the dictionary of cache hit rates are empty.
\<close>

theorem empty_snapshot:
  assumes "metrics mon = []"
    and "list_all (\<lambda>(ep, st). total_requests st = 0) (endpoint_stats mon)"
    and "sum_list (map snd (cache_stats' mon)) = 0"
    and "total_queries (database_performance mon) = 0"
  shows "\<exists>snap. get_metrics mon = Some snap
      \<and> response_times snap = [] \<and> endpoints snap = [] \<and> cache_hit_rates snap = []
      \<and> average_time (database_performance' snap) = 0
      \<and> slow_query_rate (database_performance' snap) = 0"
proof -
  have ps: "percentiles (map response_time (metrics mon)) = Some []"
    using assms(1) by (simp add: percentiles_def)
  have em: "endpoint_metrics (throughput mon) (endpoint_stats mon) = Some []"
    using assms(2) by (rule endpoint_metrics_none)
  have chr: "cache_hit_rates_of (cache_stats' mon) = Some []"
    unfolding cache_hit_rates_of_def Let_def assms(3) by simp
  have db: "db_performance (database_performance mon)
      = Some \<lparr>total_queries = 0, total_time = total_time (database_performance mon),
              average_time = 0, slow_queries = slow_queries (database_performance mon),
              slow_query_rate = 0\<rparr>"
    using assms(4) by (simp add: db_performance_def)
  show ?thesis by (simp add: get_metrics_def ps em chr db)
qed

text \<open>Witness for C9: the fresh monitor.\<close>

theorem empty_snapshot_witness:
  "metrics PerformanceMonitor_init = []
   \<and> list_all (\<lambda>(ep, st). total_requests st = 0) (endpoint_stats PerformanceMonitor_init)
   \<and> sum_list (map snd (cache_stats' PerformanceMonitor_init)) = 0
   \<and> total_queries (database_performance PerformanceMonitor_init) = 0
   \<and> (\<exists>snap. get_metrics PerformanceMonitor_init = Some snap
        \<and> response_times snap = [] \<and> endpoints snap = [] \<and> cache_hit_rates snap = []
        \<and> average_time (database_performance' snap) = 0
        \<and> slow_query_rate (database_performance' snap) = 0)"
proof -
  have h1: "metrics PerformanceMonitor_init = []"
    by (simp add: PerformanceMonitor_init_def)
  have h2: "list_all (\<lambda>(ep, st). total_requests st = 0) (endpoint_stats PerformanceMonitor_init)"
    by (simp add: PerformanceMonitor_init_def)
  have h3: "sum_list (map snd (cache_stats' PerformanceMonitor_init)) = 0"
    by (simp add: PerformanceMonitor_init_def)
  have h4: "total_queries (database_performance PerformanceMonitor_init) = 0"
    by (simp add: PerformanceMonitor_init_def)
  from empty_snapshot[OF h1 h2 h3 h4] h1 h2 h3 h4 show ?thesis by blast
qed

section \<open>The error-rate alert\<close>

text \<open>
  C3 at the failing input. One request to \<^verbatim>\<open>api\<close> ends with status 500: every request
  of the endpoint is an error. The snapshot carries the rate \<open>1\<close> under \<^verbatim>\<open>error_rates\<close>
  (a fraction) and \<open>100\<close> under the \<^verbatim>\<open>error_rate\<close> of the endpoint (a percentage);
  \<^verbatim>\<open>_check_alerts\<close> compares the fraction with \<open>5.0\<close> and emits nothing.
\<close>

theorem error_rate_alert_not_emitted:
  "map_option (\<lambda>m. (error_rates' m, map_option error_rate (map_of (endpoints m) ''api'')))
      (get_metrics one_error)
     = Some ([(''api'', 1)], Some 100)
   \<and> check_alerts 0 (get_metrics one_error) (get_stats CacheService_init) (Some quiet_system)
     = []"
  by (simp add: monitor_eval check_alerts_def error_rate_alerts_def cache_hit_rate_alerts_def
      dict_get_def quiet_system_def)

lemma list_all_update:
  "list_all P al \<Longrightarrow> P (k, v) \<Longrightarrow> list_all P (AList.update k v al)"
  by (induction al) auto

lemma defaultdict_stats_bounded:
  assumes "list_all (\<lambda>(ep, st). errors' st \<le> total_requests st) sts"
  shows "errors' (defaultdict_get default_endpoint_stats sts ep)
       \<le> total_requests (defaultdict_get default_endpoint_stats sts ep)"
proof (cases "map_of sts ep")
  case None
  then show ?thesis by (simp add: defaultdict_get_def default_endpoint_stats_def)
next
  case (Some st)
  then have "(ep, st) \<in> set sts" by (rule map_of_SomeD)
  with assms have "errors' st \<le> total_requests st" by (auto simp: list_all_iff)
  with Some show ?thesis by (simp add: defaultdict_get_def)
qed

lemma rates_bounded_record_request:
  assumes "rates_bounded mon"
  shows "rates_bounded (record_request rq mon)"
proof -
  let ?old = "defaultdict_get default_endpoint_stats (endpoint_stats mon) (arg_endpoint rq)"
  let ?new = "update_endpoint_stats rq ?old"
  have b0: "errors' ?old \<le> total_requests ?old"
    using assms by (intro defaultdict_stats_bounded) (simp add: rates_bounded_def)
  have b: "errors' ?new \<le> total_requests ?new"
    using b0 by (simp add: update_endpoint_stats_def)
  have pos: "0 < total_requests ?new" by (simp add: update_endpoint_stats_def)
  have r: "(of_nat (errors' ?new) :: rat) / of_nat (total_requests ?new) \<le> 1"
    using b pos by simp
  have e: "list_all (\<lambda>(ep, st). errors' st \<le> total_requests st)
             (AList.update (arg_endpoint rq) ?new (endpoint_stats mon))"
    using assms b by (intro list_all_update) (simp_all add: rates_bounded_def)
  have er: "list_all (\<lambda>(ep, r). r \<le> 1)
             (AList.update (arg_endpoint rq)
                (of_nat (errors' ?new) / of_nat (total_requests ?new)) (error_rates mon))"
    using assms r by (intro list_all_update) (simp_all add: rates_bounded_def)
  show ?thesis
    using e er assms
    by (simp add: rates_bounded_def record_request_def Let_def)
qed

lemma rates_bounded_record_all:
  "rates_bounded mon \<Longrightarrow> rates_bounded (record_all rqs mon)"
  unfolding record_all_def
  by (induction rqs arbitrary: mon) (simp_all add: rates_bounded_record_request)

lemma error_rate_alerts_bounded:
  "list_all (\<lambda>(ep, r). r \<le> 1) rates \<Longrightarrow> error_rate_alerts t rates = []"
  by (auto simp: error_rate_alerts_def list_all_iff filter_empty_conv)

lemma error_alerts_check_alerts:
  "error_alerts (check_alerts t pm cs sm)
     = error_rate_alerts t (case pm of None \<Rightarrow> [] | Some m \<Rightarrow> error_rates' m)"
  by (auto simp: check_alerts_def error_alerts_def Let_def error_rate_alerts_def
      cache_hit_rate_alerts_def filter_map comp_def split_def filter_empty_conv
      intro!: filter_id_conv[THEN iffD2])

lemma get_metrics_error_rates:
  "get_metrics mon = Some m \<Longrightarrow> error_rates' m = error_rates mon"
  by (auto simp: get_metrics_def split: bind_splits)

text \<open>
  The stored rates are fractions of at most \<open>1\<close>, so the check against \<open>5.0\<close> never
  succeeds: whatever requests a monitor has recorded, no error alert is emitted.
\<close>

lemma error_alert_never_emitted:
  "error_alerts (check_alerts t (get_metrics (record_all rqs PerformanceMonitor_init)) cs sm) = []"
proof -
  have "rates_bounded PerformanceMonitor_init"
    by (simp add: rates_bounded_def PerformanceMonitor_init_def)
  then have rb: "rates_bounded (record_all rqs PerformanceMonitor_init)"
    by (rule rates_bounded_record_all)
  show ?thesis
  proof (cases "get_metrics (record_all rqs PerformanceMonitor_init)")
    case None
    then show ?thesis by (simp add: error_alerts_check_alerts error_rate_alerts_def)
  next
    case (Some m)
    then have "error_rates' m = error_rates (record_all rqs PerformanceMonitor_init)"
      by (rule get_metrics_error_rates)
    with rb Some show ?thesis
      by (simp add: error_alerts_check_alerts rates_bounded_def error_rate_alerts_bounded)
  qed
qed

end
